theory Spec2Isabelle
  imports Complex_Main "HOL-Library.Word"
begin

unbundle bit_operations_syntax

section \<open>Shared vocabulary of the toolkit\<close>

text \<open>
  Instants on the wall clock are integers (nanoseconds). A \<^verbatim>\<open>time.Duration\<close> is Go's
  \<^verbatim>\<open>int64\<close> count of nanoseconds: a 64-bit word read as two's complement.
\<close>

type_synonym time = int
type_synonym duration = "64 word"

text \<open>The two values \<^verbatim>\<open>ctx.Err()\<close> can take once a context is done.\<close>

datatype ctx_err = Canceled | DeadlineExceeded

text \<open>
  The sentinel errors of package \<^verbatim>\<open>errors\<close>, the error built by \<^verbatim>\<open>fmt.Errorf\<close> in
  \<^verbatim>\<open>SetErrorPercent\<close>, the errors of the standard \<^verbatim>\<open>context\<close> package, and whatever a
  unit of work returns by itself. Go's \<^verbatim>\<open>nil\<close> error is \<open>None\<close>.
\<close>

datatype error =
    ErrTimeout
  | ErrCircuitOpen
  | ErrAdmissionRejected
  | ErrFailureInjected
  | ErrInvalidPercent int
  | ContextErr ctx_err
  | UnitErr string

text \<open>
  A context is described by what the claims observe of it: the instant at which its
  \<^verbatim>\<open>Done()\<close> channel is closed, with the value \<^verbatim>\<open>Err()\<close> has from then on; \<open>None\<close> is a
  context that is never done (\<^verbatim>\<open>context.TODO()\<close>).
\<close>

record Context =
  doneAt :: "(time \<times> ctx_err) option"

text \<open>
  A call either returns at some instant with an error or nil, or never returns.
  A unit of work (\<^verbatim>\<open>goresilience.Func\<close>) and a \<^verbatim>\<open>goresilience.Runner\<close> are given by the
  instant they are started at and the context they receive.
\<close>

datatype completion = Completes time "error option" | Never

type_synonym Func = "time \<Rightarrow> Context \<Rightarrow> completion"
type_synonym Runner = "time \<Rightarrow> Context \<Rightarrow> Func \<Rightarrow> completion"

text \<open>The three states of the circuit breaker.\<close>

datatype cb_state = Closed | Open | HalfOpen

text \<open>The calls made on the metrics recorder found in the context.\<close>

datatype metric =
    IncTimeout
  | IncBulkheadRejection
  | IncCircuitBreakerState cb_state
  | IncChaosInjectedFailure string

text \<open>
  Modelled from the spec: \<^verbatim>\<open>goresilience.SanitizeRunner\<close> is not among the sources. The
  spec: a middleware receiving an absent "next" must substitute a trivial pass-through
  Runner that directly invokes the unit of work and returns its result unmodified.
\<close>

definition SanitizeRunner :: "Runner option \<Rightarrow> Runner" where
  "SanitizeRunner next =
     (case next of None \<Rightarrow> (\<lambda>start ctx f. f start ctx) | Some r \<Rightarrow> r)"

section \<open>Package timeout\<close>

record timeout_Config =
  Timeout :: duration
  Cancel :: bool

definition defaultTimeout :: duration where
  "defaultTimeout = 1000000000"

definition defaults :: "timeout_Config \<Rightarrow> timeout_Config" where
  "defaults c = (if Timeout c \<le>s 0 then c\<lparr>Timeout := defaultTimeout\<rparr> else c)"

text \<open>
  \<^verbatim>\<open>context.WithTimeout(parent, d)\<close> of the standard library, called at instant \<open>now\<close>:
  the child is done as soon as the parent is done, with the parent's error, or when the
  deadline \<open>now + d\<close> passes, with \<^verbatim>\<open>DeadlineExceeded\<close>, whichever comes first; a parent
  already done, or a deadline already passed, makes the child done at once.
\<close>

definition WithTimeout :: "time \<Rightarrow> Context \<Rightarrow> duration \<Rightarrow> Context" where
  "WithTimeout now parent d =
     (let deadline = now + sint d in
      case doneAt parent of
        None \<Rightarrow> \<lparr>doneAt = Some (max now deadline, DeadlineExceeded)\<rparr>
      | Some (tp, e) \<Rightarrow>
          if tp < deadline then \<lparr>doneAt = Some (max now tp, e)\<rparr>
          else \<lparr>doneAt = Some (max now deadline, DeadlineExceeded)\<rparr>)"

text \<open>
  The \<^verbatim>\<open>select\<close> of \<^verbatim>\<open>Run\<close> waits on two channels: \<^verbatim>\<open>errc\<close>, which receives the result of
  the goroutine running \<^verbatim>\<open>next.Run(ctx, f)\<close>, and \<^verbatim>\<open>ctx.Done()\<close>. It proceeds with the case
  that is ready first; when both are ready at the same instant the runtime picks one of
  them, and \<open>pick\<close> is that choice.
\<close>

datatype select_case = RecvErrc | CtxDone

record timeout_result =
  outcome :: completion
  recorded :: "metric list"
  cancelCalled :: bool

fun select_race ::
  "select_case \<Rightarrow> completion \<Rightarrow> (time \<times> ctx_err) option \<Rightarrow> completion \<times> metric list" where
  "select_race pick Never None = (Never, [])"
| "select_race pick (Completes tc e) None = (Completes tc e, [])"
| "select_race pick Never (Some (td, ce)) = (Completes td (Some ErrTimeout), [IncTimeout])"
| "select_race pick (Completes tc e) (Some (td, ce)) =
     (if tc < td \<or> (tc = td \<and> pick = RecvErrc) then (Completes tc e, [])
      else (Completes td (Some ErrTimeout), [IncTimeout]))"

type_synonym timeout_Runner = "select_case \<Rightarrow> time \<Rightarrow> Context \<Rightarrow> Func \<Rightarrow> timeout_result"

definition timeout_NewMiddleware :: "timeout_Config \<Rightarrow> Runner option \<Rightarrow> timeout_Runner" where
  "timeout_NewMiddleware cfg0 next0 =
     (let cfg = defaults cfg0;
          next = SanitizeRunner next0
      in (\<lambda>pick now ctx0 f.
            let ctx = WithTimeout now ctx0 (Timeout cfg);
                errc = next now ctx f;
                (res, ms) = select_race pick errc (doneAt ctx)
            in \<lparr>outcome = res, recorded = ms,
                cancelCalled = (Cancel cfg \<and> res \<noteq> Never)\<rparr>))"

definition timeout_New :: "timeout_Config \<Rightarrow> timeout_Runner" where
  "timeout_New cfg = timeout_NewMiddleware cfg None"

text \<open>Inputs at which the claims about the race are evaluated.\<close>

definition one_second_cfg :: timeout_Config where
  "one_second_cfg = \<lparr>Timeout = 1000000000, Cancel = False\<rparr>"


definition background :: Context where
  "background = \<lparr>doneAt = None\<rparr>"

definition canceled_early :: Context where
  "canceled_early = \<lparr>doneAt = Some (100000000, Canceled)\<rparr>"



definition half_second_unit :: Func where
  "half_second_unit start ctx = Completes (start + 500000000) None"

definition failing_unit :: Func where
  "failing_unit start ctx = Completes (start + 500000000) (Some (UnitErr ''boom''))"

text \<open>A unit that waits for its context and returns \<^verbatim>\<open>ctx.Err()\<close> one millisecond later.\<close>

definition obedient_unit :: Func where
  "obedient_unit start ctx =
     (case doneAt ctx of
        None \<Rightarrow> Never
      | Some (t, e) \<Rightarrow> Completes (max start t + 1000000) (Some (ContextErr e)))"

section \<open>Go's float64, as far as package chaos uses it\<close>

text \<open>
  A \<^verbatim>\<open>float64\<close> is a rational that binary64 represents, an infinity or NaN. The sign of
  a zero is left out: a conversion from an integer never yields a negative zero, and
  neither the multiplication by 100 nor the conversion to \<^verbatim>\<open>int\<close> can tell the two zeros
  apart.
\<close>

datatype float64 = Finite rat | PosInf | NegInf | NaN

text \<open>The number of binary digits of a positive integer.\<close>

function bits :: "int \<Rightarrow> nat" where
  "bits n = (if n \<le> 0 then 0 else Suc (bits (n div 2)))"
  by pat_completeness auto
termination
  by (relation "measure nat") auto

declare bits.simps [simp del]

definition pow2 :: "int \<Rightarrow> rat" where
  "pow2 k = (if 0 \<le> k then 2 ^ nat k else 1 / 2 ^ nat (- k))"

text \<open>The exponent \<open>e\<close> of a positive rational \<open>a\<close>: \<open>2 ^ e \<le> a < 2 ^ (e + 1)\<close>.\<close>

definition exponent :: "rat \<Rightarrow> int" where
  "exponent a = (if 1 \<le> a then int (bits \<lfloor>a\<rfloor>) - 1 else - int (bits (\<lceil>1 / a\<rceil> - 1)))"

definition round_half_even :: "rat \<Rightarrow> int" where
  "round_half_even q =
     (let n = \<lfloor>q\<rfloor>; r = q - of_int n in
      if r < 1 / 2 then n
      else if 1 / 2 < r then n + 1
      else if even n then n else n + 1)"

text \<open>
  Rounding to the nearest binary64 value, ties to even: 53 bits of significand, the
  exponent not below -1022 (subnormal numbers), overflow to an infinity from \<open>2 ^ 1024\<close>.
\<close>

definition round64 :: "rat \<Rightarrow> float64" where
  "round64 q =
     (if q = 0 then Finite 0
      else
        let a = \<bar>q\<bar>;
            e = exponent a;
            ulp = pow2 (max e (- 1022) - 52);
            r = of_int (round_half_even (a / ulp)) * ulp
        in if pow2 1024 \<le> r then (if 0 < q then PosInf else NegInf)
           else Finite (sgn q * r))"

text \<open>The conversion \<^verbatim>\<open>float64(i)\<close> of an integer.\<close>

definition float64_of_int :: "int \<Rightarrow> float64" where
  "float64_of_int i = round64 (of_int i)"

fun fdiv :: "float64 \<Rightarrow> float64 \<Rightarrow> float64" where
  "fdiv NaN y = NaN"
| "fdiv x NaN = NaN"
| "fdiv (Finite a) (Finite b) =
     (if b = 0 then (if a = 0 then NaN else if 0 < a then PosInf else NegInf)
      else round64 (a / b))"
| "fdiv (Finite a) PosInf = Finite 0"
| "fdiv (Finite a) NegInf = Finite 0"
| "fdiv PosInf (Finite b) = (if 0 \<le> b then PosInf else NegInf)"
| "fdiv NegInf (Finite b) = (if 0 \<le> b then NegInf else PosInf)"
| "fdiv x y = NaN"

fun fmul :: "float64 \<Rightarrow> float64 \<Rightarrow> float64" where
  "fmul NaN y = NaN"
| "fmul x NaN = NaN"
| "fmul (Finite a) (Finite b) = round64 (a * b)"
| "fmul (Finite a) PosInf = (if a = 0 then NaN else if 0 < a then PosInf else NegInf)"
| "fmul (Finite a) NegInf = (if a = 0 then NaN else if 0 < a then NegInf else PosInf)"
| "fmul PosInf (Finite b) = (if b = 0 then NaN else if 0 < b then PosInf else NegInf)"
| "fmul NegInf (Finite b) = (if b = 0 then NaN else if 0 < b then NegInf else PosInf)"
| "fmul PosInf PosInf = PosInf"
| "fmul NegInf NegInf = PosInf"
| "fmul PosInf NegInf = NegInf"
| "fmul NegInf PosInf = NegInf"

text \<open>
  The conversion \<^verbatim>\<open>int(x)\<close> of a \<^verbatim>\<open>float64\<close> to Go's 64-bit \<^verbatim>\<open>int\<close> discards the fraction.
  For a value that \<^verbatim>\<open>int\<close> cannot represent (NaN, an infinity, a value out of range) the
  language leaves the result to the implementation: \<open>impl\<close> is what the platform gives.
\<close>

definition int_of_float64 :: "(float64 \<Rightarrow> int) \<Rightarrow> float64 \<Rightarrow> int" where
  "int_of_float64 impl x =
     (case x of
        Finite q \<Rightarrow>
          (let t = (if 0 \<le> q then \<lfloor>q\<rfloor> else \<lceil>q\<rceil>) in
           if - (2 ^ 63) \<le> t \<and> t < 2 ^ 63 then t else impl x)
      | _ \<Rightarrow> impl x)"

text \<open>
  On amd64 the conversion is the instruction \<^verbatim>\<open>CVTTSD2SQ\<close>, which answers every invalid
  operand with the "integer indefinite" value \<^verbatim>\<open>0x8000000000000000\<close>, the least
  \<^verbatim>\<open>int64\<close>.
\<close>

definition amd64 :: "float64 \<Rightarrow> int" where
  "amd64 x = - (2 ^ 63)"

section \<open>Package chaos\<close>

definition kindLatency :: string where
  "kindLatency = ''latency''"

definition kindError :: string where
  "kindError = ''error''"

text \<open>
  Go's \<^verbatim>\<open>int\<close> fields and parameters are integers in the range of \<^verbatim>\<open>int64\<close>; an increment
  wraps around from the greatest to the least of them.
\<close>

definition wrap64 :: "int \<Rightarrow> int" where
  "wrap64 x = (x + 2 ^ 63) mod 2 ^ 64 - 2 ^ 63"

record Injector =
  latency :: duration
  errorPercent :: int

definition SetLatency :: "duration \<Rightarrow> Injector \<Rightarrow> Injector" where
  "SetLatency t i = i\<lparr>latency := t\<rparr>"

text \<open>The method returns its error; the receiver it leaves behind is the second component.\<close>

definition SetErrorPercent :: "int \<Rightarrow> Injector \<Rightarrow> error option \<times> Injector" where
  "SetErrorPercent percent i =
     (if percent > 100 \<or> percent < 0 then (Some (ErrInvalidPercent percent), i)
      else (None, i\<lparr>errorPercent := percent\<rparr>))"

text \<open>
  The configuration holds a pointer to the injector: \<open>None\<close> is the nil pointer. A call
  of a setter after construction is seen by the runner through the pointer; here it is
  an update of the field.
\<close>

record chaos_Config =
  Injector :: "Injector option"

definition chaos_defaults :: "chaos_Config \<Rightarrow> chaos_Config" where
  "chaos_defaults c =
     (if Injector c = None
      then c\<lparr>Injector := Some \<lparr>latency = 100000000, errorPercent = 0\<rparr>\<rparr>
      else c)"

record failureInjector =
  total :: int
  errs :: int
  cfg :: chaos_Config
  runner :: Runner

definition chaos_NewMiddleware :: "chaos_Config \<Rightarrow> Runner option \<Rightarrow> failureInjector" where
  "chaos_NewMiddleware c next =
     \<lparr>total = 0, errs = 0, cfg = chaos_defaults c, runner = SanitizeRunner next\<rparr>"

definition chaos_New :: "chaos_Config \<Rightarrow> failureInjector" where
  "chaos_New c = chaos_NewMiddleware c None"

text \<open>The deferred function of \<^verbatim>\<open>Run\<close>: it counts the request, and the error if there is one.\<close>

definition count_request :: "error option \<Rightarrow> failureInjector \<Rightarrow> failureInjector" where
  "count_request err f =
     f\<lparr>total := wrap64 (total f + 1),
       errs := (if err \<noteq> None then wrap64 (errs f + 1) else errs f)\<rparr>"

text \<open>
  One call of \<^verbatim>\<open>Run\<close>, started at \<open>now\<close>, with no other call in flight. The result is
  \<open>None\<close> when the injector pointer is nil (a panic); otherwise how the call ends, the
  calls made on the metrics recorder, and the runner afterwards. A call that never
  returns never runs its deferred function.
\<close>

definition chaos_Run ::
  "(float64 \<Rightarrow> int) \<Rightarrow> failureInjector \<Rightarrow> time \<Rightarrow> Context \<Rightarrow> Func
     \<Rightarrow> (completion \<times> metric list \<times> failureInjector) option" where
  "chaos_Run impl f now ctx fn =
     (case Injector (cfg f) of
        None \<Rightarrow> None
      | Some i \<Rightarrow>
          let lat = latency i;
              ms = (if 0 <s lat then [IncChaosInjectedFailure kindLatency] else []);
              t = (if 0 <s lat then now + sint lat else now);
              currentErrPerc =
                int_of_float64 impl
                  (fmul (fdiv (float64_of_int (errs f)) (float64_of_int (total f))) (Finite 100))
          in if currentErrPerc < errorPercent i
             then Some (Completes t (Some ErrFailureInjected),
                        ms @ [IncChaosInjectedFailure kindError],
                        count_request (Some ErrFailureInjected) f)
             else (case runner f t ctx fn of
                     Completes t' err \<Rightarrow> Some (Completes t' err, ms, count_request err f)
                   | Never \<Rightarrow> Some (Never, ms, f)))"

definition ok_unit :: Func where
  "ok_unit start ctx = Completes start None"

section \<open>Package circuitbreaker\<close>

text \<open>
  Package \<^verbatim>\<open>circuitbreaker\<close> is not among the sources: only \<^verbatim>\<open>examples/circuitbreaker/main.go\<close>,
  which names the fields of its configuration, is. Every definition of this section is
  written from the sentences of the spec, sections 3 and 4.4. Counters are natural
  numbers, instants and durations are integers (nanoseconds).
\<close>

text \<open>
  Modelled from the spec: the configuration of the circuit breaker, whose declaration is
  not among the sources. The field names are those of the example.
\<close>

record circuitbreaker_Config =
  ErrorPercentThresholdToOpen :: nat
  MinimumRequestToOpen :: nat
  SuccessfulRequiredOnHalfOpen :: nat
  WaitDurationInOpenState :: int
  MetricsSlidingWindowBucketQuantity :: nat
  MetricsBucketDuration :: int

text \<open>
  Modelled from the spec: CircuitBreakerState, not among the sources. The spec: an enum
  {Closed, Open, HalfOpen}; a ring of MetricsSlidingWindowBucketQuantity time buckets
  each spanning MetricsBucketDuration, each holding (total, failed) counters; a half-open
  consecutive-success counter; the timestamp of the last transition into Open. The
  number of the bucket observed last is kept for the lazy rotation.
\<close>

record CircuitBreakerState =
  state :: cb_state
  buckets :: "(nat \<times> nat) list"
  lastBucket :: int
  halfOpenSuccesses :: nat
  openedAt :: time

text \<open>
  Modelled from the spec: the bucket a wall-clock instant falls into and its place in the
  ring, not among the sources. The spec: the active bucket index is
  wallClock / bucketDuration mod quantity.
\<close>

definition bucketNumber :: "circuitbreaker_Config \<Rightarrow> time \<Rightarrow> int" where
  "bucketNumber conf wallClock = wallClock div MetricsBucketDuration conf"

definition activeIndex :: "circuitbreaker_Config \<Rightarrow> time \<Rightarrow> nat" where
  "activeIndex conf wallClock =
     nat (bucketNumber conf wallClock mod int (MetricsSlidingWindowBucketQuantity conf))"

text \<open>
  Modelled from the spec: clearing \<open>k\<close> buckets of the ring from index \<open>i\<close> on, wrapping
  around, not among the sources.
\<close>

fun clearFrom :: "nat \<Rightarrow> nat \<Rightarrow> (nat \<times> nat) list \<Rightarrow> (nat \<times> nat) list" where
  "clearFrom i 0 bs = bs"
| "clearFrom i (Suc k) bs = clearFrom (Suc i mod length bs) k (bs[i := (0, 0)])"

text \<open>
  Modelled from the spec: the lazy rotation of the window, not among the sources. The
  spec: bucket rotation is monotonic in wall-clock time; advancing past a boundary
  clears the buckets skipped since the last observed index, and a bucket skipped by
  elapsed time is cleared before reuse.
\<close>

definition rotate :: "circuitbreaker_Config \<Rightarrow> time \<Rightarrow> CircuitBreakerState \<Rightarrow> CircuitBreakerState" where
  "rotate conf wallClock s =
     (let b = bucketNumber conf wallClock;
          n = MetricsSlidingWindowBucketQuantity conf
      in if b \<le> lastBucket s then s
         else if int n \<le> b - lastBucket s
           then s\<lparr>buckets := replicate n (0, 0), lastBucket := b\<rparr>
           else s\<lparr>buckets := clearFrom (nat ((lastBucket s + 1) mod int n))
                                 (nat (b - lastBucket s)) (buckets s),
                  lastBucket := b\<rparr>)"

text \<open>
  Modelled from the spec: counting an outcome, not among the sources. The spec: each
  outcome increments the active time bucket's total/failed counters.
\<close>

definition countOutcome ::
  "circuitbreaker_Config \<Rightarrow> time \<Rightarrow> error option \<Rightarrow> CircuitBreakerState \<Rightarrow> CircuitBreakerState" where
  "countOutcome conf wallClock err s =
     (let s' = rotate conf wallClock s;
          i = activeIndex conf wallClock;
          (t, f) = buckets s' ! i
      in if i < length (buckets s')
         then s'\<lparr>buckets := (buckets s')[i := (t + 1, if err \<noteq> None then f + 1 else f)]\<rparr>
         else s')"

text \<open>
  Modelled from the spec: the aggregate of the window, not among the sources. The spec:
  aggregate total/failed is the sum across all currently live buckets.
\<close>

definition aggregate :: "CircuitBreakerState \<Rightarrow> nat \<times> nat" where
  "aggregate s = (sum_list (map fst (buckets s)), sum_list (map snd (buckets s)))"

text \<open>
  Modelled from the spec: the condition of the transition from Closed to Open, not among
  the sources. The spec: aggregate window total \<open>\<ge>\<close> MinimumRequestToOpen AND
  (failed/total)*100 \<open>\<ge>\<close> ErrorPercentThresholdToOpen.
\<close>

definition thresholdReached :: "circuitbreaker_Config \<Rightarrow> CircuitBreakerState \<Rightarrow> bool" where
  "thresholdReached conf s =
     (let (tot, failed) = aggregate s
      in MinimumRequestToOpen conf \<le> tot
         \<and> rat_of_nat (ErrorPercentThresholdToOpen conf)
             \<le> (rat_of_nat failed / rat_of_nat tot) * 100)"

text \<open>
  Modelled from the spec: the lazy check made when a call comes in, not among the
  sources. The spec: no background timer is used; once WaitDurationInOpenState has
  elapsed since the Open transition, the next calls are let through as probes; every
  transition emits a state-change event.
\<close>

definition lazyCheck ::
  "circuitbreaker_Config \<Rightarrow> time \<Rightarrow> CircuitBreakerState \<Rightarrow> CircuitBreakerState \<times> metric list" where
  "lazyCheck conf now s =
     (if state s = Open \<and> WaitDurationInOpenState conf \<le> now - openedAt s
      then (s\<lparr>state := HalfOpen, halfOpenSuccesses := 0\<rparr>, [IncCircuitBreakerState HalfOpen])
      else (s, []))"

record circuitbreaker_result =
  cbOutcome :: completion
  cbRecorded :: "metric list"
  cbInvoked :: bool
  cbAfter :: CircuitBreakerState

text \<open>
  Modelled from the spec: a new circuit breaker, not among the sources: Closed, with an
  empty window.
\<close>

definition circuitbreaker_New :: "circuitbreaker_Config \<Rightarrow> time \<Rightarrow> CircuitBreakerState" where
  "circuitbreaker_New conf now =
     \<lparr>state = Closed,
      buckets = replicate (MetricsSlidingWindowBucketQuantity conf) (0, 0),
      lastBucket = bucketNumber conf now,
      halfOpenSuccesses = 0,
      openedAt = now\<rparr>"

text \<open>
  Modelled from the spec: \<^verbatim>\<open>Run\<close> of the circuit breaker, not among the sources, for one call
  coming in at \<open>now\<close> with no other call in flight. The spec: Closed: calls pass through
  and each outcome is counted; Closed to Open: evaluated per call; Open: every call is
  rejected immediately with the circuit-open error and the wrapped Runner is never
  invoked; HalfOpen to Closed: after SuccessfulRequiredOnHalfOpen consecutive successful
  probe calls, counters and window reset; HalfOpen to Open: on the first failing probe,
  which restarts the wait clock and resets the counter of successes. \<open>cbInvoked\<close> tells
  whether the wrapped Runner was called.
\<close>

definition circuitbreaker_Run ::
  "circuitbreaker_Config \<Rightarrow> Runner \<Rightarrow> CircuitBreakerState \<Rightarrow> time \<Rightarrow> Context \<Rightarrow> Func
     \<Rightarrow> circuitbreaker_result" where
  "circuitbreaker_Run conf next s0 now ctx f =
     (let (s, ms) = lazyCheck conf now s0 in
      case state s of
        Open \<Rightarrow>
          \<lparr>cbOutcome = Completes now (Some ErrCircuitOpen), cbRecorded = ms,
           cbInvoked = False, cbAfter = s\<rparr>
      | Closed \<Rightarrow>
          (case next now ctx f of
             Never \<Rightarrow> \<lparr>cbOutcome = Never, cbRecorded = ms, cbInvoked = True, cbAfter = s\<rparr>
           | Completes t err \<Rightarrow>
               let s' = countOutcome conf t err s in
               if thresholdReached conf s'
               then \<lparr>cbOutcome = Completes t err,
                     cbRecorded = ms @ [IncCircuitBreakerState Open],
                     cbInvoked = True,
                     cbAfter = s'\<lparr>state := Open, openedAt := t\<rparr>\<rparr>
               else \<lparr>cbOutcome = Completes t err, cbRecorded = ms,
                     cbInvoked = True, cbAfter = s'\<rparr>)
      | HalfOpen \<Rightarrow>
          (case next now ctx f of
             Never \<Rightarrow> \<lparr>cbOutcome = Never, cbRecorded = ms, cbInvoked = True, cbAfter = s\<rparr>
           | Completes t err \<Rightarrow>
               if err \<noteq> None
               then \<lparr>cbOutcome = Completes t err,
                     cbRecorded = ms @ [IncCircuitBreakerState Open],
                     cbInvoked = True,
                     cbAfter = s\<lparr>state := Open, openedAt := t, halfOpenSuccesses := 0\<rparr>\<rparr>
               else if SuccessfulRequiredOnHalfOpen conf \<le> halfOpenSuccesses s + 1
               then \<lparr>cbOutcome = Completes t err,
                     cbRecorded = ms @ [IncCircuitBreakerState Closed],
                     cbInvoked = True,
                     cbAfter = s\<lparr>state := Closed,
                                 buckets := replicate (MetricsSlidingWindowBucketQuantity conf) (0, 0),
                                 lastBucket := bucketNumber conf t,
                                 halfOpenSuccesses := 0\<rparr>\<rparr>
               else \<lparr>cbOutcome = Completes t err, cbRecorded = ms, cbInvoked = True,
                     cbAfter = s\<lparr>halfOpenSuccesses := halfOpenSuccesses s + 1\<rparr>\<rparr>))"

text \<open>A sequence of calls, one after the other; each comes in at its instant.\<close>

fun circuitbreaker_calls ::
  "circuitbreaker_Config \<Rightarrow> Runner \<Rightarrow> CircuitBreakerState \<Rightarrow> (time \<times> Context \<times> Func) list
     \<Rightarrow> circuitbreaker_result list" where
  "circuitbreaker_calls conf next s [] = []"
| "circuitbreaker_calls conf next s ((now, ctx, f) # cs) =
     (let r = circuitbreaker_Run conf next s now ctx f
      in r # circuitbreaker_calls conf next (cbAfter r) cs)"





text \<open>A small configuration, states and a unit at which the claims are evaluated.\<close>

definition small_conf :: circuitbreaker_Config where
  "small_conf =
     \<lparr>ErrorPercentThresholdToOpen = 50,
      MinimumRequestToOpen = 2,
      SuccessfulRequiredOnHalfOpen = 1,
      WaitDurationInOpenState = 5000000000,
      MetricsSlidingWindowBucketQuantity = 2,
      MetricsBucketDuration = 1000000000\<rparr>"


definition tripped :: CircuitBreakerState where
  "tripped =
     \<lparr>state = Open, buckets = [(2, 2), (0, 0)], lastBucket = 0,
      halfOpenSuccesses = 0, openedAt = 1000000\<rparr>"

definition instant_failure :: Func where
  "instant_failure start ctx = Completes start (Some (UnitErr ''odd minute''))"

section \<open>Package bulkhead\<close>

text \<open>
  Package \<^verbatim>\<open>bulkhead\<close> is not among the sources: only its test, \<^verbatim>\<open>TestBulkheadTimeout\<close>, is.
  Every definition of this section is written from the sentences of the spec, sections
  3 and 4.3. The calls of a run are taken one after the other in the order in which
  they contend for a slot; the spec leaves the order of admission open.
\<close>

text \<open>
  Modelled from the spec: the configuration of the bulkhead, whose declaration is not
  among the sources. The spec: Workers (0 means unbounded: all calls run immediately),
  MaxWaitTime (0 means wait indefinitely for a slot).
\<close>

record bulkhead_Config =
  Workers :: nat
  MaxWaitTime :: int

text \<open>
  Modelled from the spec: BulkheadState, not among the sources. The spec: an admission
  mechanism equivalent to a counting semaphore of size Workers. A slot is free, or held
  until the call inside it returns, or held for good by a call that never returns.
\<close>

datatype slot = Idle | BusyUntil time | BusyForever

text \<open>
  Modelled from the spec: how a call ends up, not among the sources: admitted at an
  instant, rejected at an instant, or waiting without end.
\<close>

datatype admission = Admitted time | Rejected time | Starved

record bulkhead_result =
  admission :: admission
  bkOutcome :: completion
  bkRecorded :: "metric list"
  bkInvoked :: bool

text \<open>
  Modelled from the spec: the instant from which a slot can be acquired by a call that
  arrives at \<open>a\<close>, not among the sources.
\<close>

definition freeAt :: "time \<Rightarrow> slot \<Rightarrow> time option" where
  "freeAt a sl =
     (case sl of Idle \<Rightarrow> Some a | BusyUntil r \<Rightarrow> Some (max a r) | BusyForever \<Rightarrow> None)"

text \<open>
  Modelled from the spec: the slot that is free first, with the instant from which it
  is, not among the sources.
\<close>

fun earliest :: "time \<Rightarrow> slot list \<Rightarrow> (nat \<times> time) option" where
  "earliest a [] = None"
| "earliest a (sl # sls) =
     (case (freeAt a sl, earliest a sls) of
        (None, None) \<Rightarrow> None
      | (Some t, None) \<Rightarrow> Some (0, t)
      | (None, Some (i, u)) \<Rightarrow> Some (Suc i, u)
      | (Some t, Some (i, u)) \<Rightarrow> if t \<le> u then Some (0, t) else Some (Suc i, u))"

text \<open>
  Modelled from the spec: the instant at which a waiting call gives up, not among the
  sources. The spec: the wait for a slot is bounded by MaxWaitTime or the caller's own
  cancellation, whichever is first; MaxWaitTime 0 means wait indefinitely.
\<close>

definition waitLimit :: "bulkhead_Config \<Rightarrow> time \<Rightarrow> Context \<Rightarrow> time option" where
  "waitLimit conf a ctx =
     (case doneAt ctx of
        None \<Rightarrow> if 0 < MaxWaitTime conf then Some (a + MaxWaitTime conf) else None
      | Some (t, e) \<Rightarrow>
          if 0 < MaxWaitTime conf then Some (min (a + MaxWaitTime conf) (max a t))
          else Some (max a t))"

text \<open>
  Modelled from the spec: an admitted call, not among the sources. The spec: execute
  the unit of work synchronously inside that slot, returning the unit's result
  unchanged.
\<close>

definition admit :: "Runner \<Rightarrow> time \<Rightarrow> Context \<Rightarrow> Func \<Rightarrow> bulkhead_result" where
  "admit next s ctx f =
     \<lparr>admission = Admitted s, bkOutcome = next s ctx f, bkRecorded = [], bkInvoked = True\<rparr>"

text \<open>
  Modelled from the spec: a rejected call, not among the sources. The spec: if a slot is
  not acquired in time, return a dedicated rejection error without ever invoking the
  unit of work; \<open>IncBulkheadRejection()\<close> is called on failed admission.
\<close>

definition reject :: "time \<Rightarrow> bulkhead_result" where
  "reject l =
     \<lparr>admission = Rejected l, bkOutcome = Completes l (Some ErrAdmissionRejected),
      bkRecorded = [IncBulkheadRejection], bkInvoked = False\<rparr>"

text \<open>
  Modelled from the spec: a call that waits indefinitely for a slot that is never
  released, not among the sources.
\<close>

definition starve :: bulkhead_result where
  "starve = \<lparr>admission = Starved, bkOutcome = Never, bkRecorded = [], bkInvoked = False\<rparr>"

text \<open>
  Modelled from the spec: the slot of an admitted call, not among the sources. The
  spec: always release the slot on completion regardless of outcome.
\<close>

definition held :: "completion \<Rightarrow> slot" where
  "held c = (case c of Completes r e \<Rightarrow> BusyUntil r | Never \<Rightarrow> BusyForever)"

text \<open>
  Modelled from the spec: a new bulkhead, not among the sources: all slots free.
\<close>

definition bulkhead_New :: "bulkhead_Config \<Rightarrow> slot list" where
  "bulkhead_New conf = replicate (Workers conf) Idle"

text \<open>
  Modelled from the spec: \<^verbatim>\<open>Run\<close> of the bulkhead, not among the sources, for a call that
  arrives at \<open>a\<close>. The spec: Workers 0: all calls run immediately; otherwise attempt to
  acquire a slot; if acquired within MaxWaitTime (or the caller's own cancellation,
  whichever first), execute the unit of work inside that slot; if a slot is not
  acquired in time, reject.
\<close>

definition bulkhead_Run ::
  "bulkhead_Config \<Rightarrow> Runner \<Rightarrow> slot list \<Rightarrow> time \<Rightarrow> Context \<Rightarrow> Func
     \<Rightarrow> bulkhead_result \<times> slot list" where
  "bulkhead_Run conf next slots a ctx f =
     (if Workers conf = 0 then (admit next a ctx f, slots)
      else
        case earliest a slots of
          None \<Rightarrow>
            (case waitLimit conf a ctx of
               None \<Rightarrow> (starve, slots)
             | Some l \<Rightarrow> (reject l, slots))
        | Some (i, s) \<Rightarrow>
            (case waitLimit conf a ctx of
               None \<Rightarrow> (admit next s ctx f, slots[i := held (next s ctx f)])
             | Some l \<Rightarrow>
                 if s \<le> a \<or> s < l
                 then (admit next s ctx f, slots[i := held (next s ctx f)])
                 else (reject l, slots)))"

text \<open>The calls submitted to one bulkhead, each with its instant of arrival.\<close>

fun bulkhead_calls ::
  "bulkhead_Config \<Rightarrow> Runner \<Rightarrow> slot list \<Rightarrow> (time \<times> Context \<times> Func) list
     \<Rightarrow> bulkhead_result list" where
  "bulkhead_calls conf next slots [] = []"
| "bulkhead_calls conf next slots ((a, ctx, f) # cs) =
     (let (r, slots') = bulkhead_Run conf next slots a ctx f
      in r # bulkhead_calls conf next slots' cs)"

fun isAdmitted :: "bulkhead_result \<Rightarrow> bool" where
  "isAdmitted r = (case admission r of Admitted s \<Rightarrow> True | _ \<Rightarrow> False)"

fun isRejected :: "bulkhead_result \<Rightarrow> bool" where
  "isRejected r = (case admission r of Rejected l \<Rightarrow> True | _ \<Rightarrow> False)"




text \<open>The two cases of \<^verbatim>\<open>TestBulkheadTimeout\<close>: configuration, unit of work, calls.\<close>

definition test_unbounded :: bulkhead_Config where
  "test_unbounded = \<lparr>Workers = 0, MaxWaitTime = 0\<rparr>"

definition test_bounded :: bulkhead_Config where
  "test_bounded = \<lparr>Workers = 10, MaxWaitTime = 5000000\<rparr>"

definition sleep_2ms :: Func where
  "sleep_2ms start ctx = Completes (start + 2000000) None"

definition sleep_20ms :: Func where
  "sleep_20ms start ctx = Completes (start + 20000000) None"

definition timesToCall :: "nat \<Rightarrow> Func \<Rightarrow> (time \<times> Context \<times> Func) list" where
  "timesToCall k f = replicate k (0, background, f)"




section \<open>Properties of package timeout\<close>

lemma defaults_Timeout:
  "Timeout (defaults c) = (if Timeout c \<le>s 0 then defaultTimeout else Timeout c)"
  by (simp add: defaults_def)

lemma defaultTimeout_positive: "\<not> defaultTimeout \<le>s 0"
  by (simp add: defaultTimeout_def word_sle_eq)

text \<open>
  C8. Defaulting maps every Timeout that is at most 0 to one second (1000000000 ns),
  leaves every positive Timeout as it is, never touches Cancel, and is idempotent:
  applying it twice gives the same configuration as applying it once.
\<close>

theorem defaults_idempotent:
  "(Timeout c \<le>s 0 \<longrightarrow> Timeout (defaults c) = defaultTimeout)
   \<and> (0 <s Timeout c \<longrightarrow> defaults c = c)
   \<and> Cancel (defaults c) = Cancel c
   \<and> sint defaultTimeout = 1000000000
   \<and> defaults (defaults c) = defaults c"
proof -
  have pos: "0 <s Timeout c \<Longrightarrow> \<not> Timeout c \<le>s 0"
    by (simp add: word_sle_eq word_sless_alt)
  have twice: "defaults (defaults c) = defaults c"
    using defaultTimeout_positive by (simp add: defaults_def)
  have one_second: "sint defaultTimeout = 1000000000"
    by (simp add: defaultTimeout_def)
  show ?thesis
    using pos twice one_second by (simp add: defaults_def)
qed

theorem defaults_idempotent_witness:
  "Timeout \<lparr>Timeout = - 5, Cancel = True\<rparr> \<le>s 0
   \<and> Timeout (defaults \<lparr>Timeout = - 5, Cancel = True\<rparr>) = defaultTimeout
   \<and> 0 <s Timeout \<lparr>Timeout = 250, Cancel = False\<rparr>
   \<and> defaults \<lparr>Timeout = 250, Cancel = False\<rparr> = \<lparr>Timeout = 250, Cancel = False\<rparr>"
proof -
  have neg: "Timeout \<lparr>Timeout = - 5, Cancel = True\<rparr> \<le>s 0"
    by (simp add: word_sle_eq)
  have pos: "0 <s Timeout \<lparr>Timeout = 250, Cancel = False\<rparr>"
    by (simp add: word_sless_alt)
  show ?thesis
    using neg pos
      defaults_idempotent [of "\<lparr>Timeout = - 5, Cancel = True\<rparr>"]
      defaults_idempotent [of "\<lparr>Timeout = 250, Cancel = False\<rparr>"]
    by simp
qed

lemma defaults_sint_pos: "0 < sint (Timeout (defaults c))"
  by (simp add: defaults_def defaultTimeout_def word_sle_eq)

lemma WithTimeout_doneAt:
  "0 < sint d \<Longrightarrow>
   doneAt (WithTimeout now ctx d) =
     Some (case doneAt ctx of
             None \<Rightarrow> (now + sint d, DeadlineExceeded)
           | Some (tp, e) \<Rightarrow>
               if tp < now + sint d then (max now tp, e) else (now + sint d, DeadlineExceeded))"
  by (simp add: WithTimeout_def Let_def max_def split: option.splits prod.splits)

lemma timeout_Run_unfold:
  "timeout_NewMiddleware conf next pick now ctx f =
     (let ctx' = WithTimeout now ctx (Timeout (defaults conf));
          r = select_race pick (SanitizeRunner next now ctx' f) (doneAt ctx')
      in \<lparr>outcome = fst r, recorded = snd r,
          cancelCalled = (Cancel (defaults conf) \<and> fst r \<noteq> Never)\<rparr>)"
  by (simp add: timeout_NewMiddleware_def Let_def split: prod.splits)

lemma sint_one_second: "sint (Timeout (defaults one_second_cfg)) = 1000000000"
  by (simp add: one_second_cfg_def defaults_def word_sle_eq)


text \<open>
  C1, as the code has it. Let the derived context be done at \<open>td\<close>: the earlier of the
  Timeout elapsing and the caller's context being done. If the wrapped call completes
  strictly before \<open>td\<close>, Run returns that call's own error or nil unchanged and records
  nothing. If \<open>td\<close> comes strictly first, or the call never completes, Run returns
  ErrTimeout at \<open>td\<close> and records one timeout event, whatever the abandoned call returns
  later. \<open>td\<close> is never later than the Timeout, and it is exactly the Timeout when
  the caller's context is not done before.
\<close>

theorem timeout_Run_race:
  assumes d: "doneAt (WithTimeout now ctx (Timeout (defaults conf))) = Some (td, ce)"
    and c: "SanitizeRunner next now (WithTimeout now ctx (Timeout (defaults conf))) f = c"
    and R: "R = timeout_NewMiddleware conf next pick now ctx f"
  shows "(\<forall>tc e. c = Completes tc e \<and> tc < td \<longrightarrow>
            outcome R = Completes tc e \<and> recorded R = [])
       \<and> ((c = Never \<or> (\<exists>tc e. c = Completes tc e \<and> td < tc)) \<longrightarrow>
            outcome R = Completes td (Some ErrTimeout) \<and> recorded R = [IncTimeout])
       \<and> td \<le> now + sint (Timeout (defaults conf))
       \<and> ((case doneAt ctx of
              None \<Rightarrow> True
            | Some (tp, e) \<Rightarrow> now + sint (Timeout (defaults conf)) \<le> tp) \<longrightarrow>
            td = now + sint (Timeout (defaults conf)))"
  using d c WithTimeout_doneAt [OF defaults_sint_pos, of now ctx conf] defaults_sint_pos [of conf]
  unfolding R timeout_Run_unfold
  by (cases c) (auto simp: Let_def split: option.splits prod.splits if_splits)

theorem timeout_Run_race_witness:
  "outcome (timeout_NewMiddleware one_second_cfg None RecvErrc 0 background failing_unit)
     = Completes 500000000 (Some (UnitErr ''boom''))
   \<and> recorded (timeout_NewMiddleware one_second_cfg None RecvErrc 0 background failing_unit) = []
   \<and> outcome (timeout_NewMiddleware one_second_cfg None RecvErrc 0 background obedient_unit)
     = Completes 1000000000 (Some ErrTimeout)
   \<and> recorded (timeout_NewMiddleware one_second_cfg None RecvErrc 0 background obedient_unit)
     = [IncTimeout]"
proof -
  have d: "doneAt (WithTimeout 0 background (Timeout (defaults one_second_cfg)))
             = Some (1000000000, DeadlineExceeded)"
    by (simp add: WithTimeout_def background_def sint_one_second)
  have c1: "SanitizeRunner None 0 (WithTimeout 0 background (Timeout (defaults one_second_cfg)))
              failing_unit = Completes 500000000 (Some (UnitErr ''boom''))"
    by (simp add: SanitizeRunner_def failing_unit_def)
  have c2: "SanitizeRunner None 0 (WithTimeout 0 background (Timeout (defaults one_second_cfg)))
              obedient_unit = Completes 1001000000 (Some (ContextErr DeadlineExceeded))"
    by (simp add: SanitizeRunner_def obedient_unit_def d)
  show ?thesis
    using timeout_Run_race [OF d c1 refl, of RecvErrc] timeout_Run_race [OF d c2 refl, of RecvErrc]
    by simp
qed

theorem timeout_Run_race_counterexample:
  "half_second_unit 0 (WithTimeout 0 canceled_early (Timeout (defaults one_second_cfg)))
     = Completes 500000000 None
   \<and> 500000000 < 0 + sint (Timeout (defaults one_second_cfg))
   \<and> outcome (timeout_New one_second_cfg RecvErrc 0 canceled_early half_second_unit)
     = Completes 100000000 (Some ErrTimeout)
   \<and> outcome (timeout_New one_second_cfg RecvErrc 0 canceled_early half_second_unit)
     \<noteq> Completes 500000000 None
   \<and> recorded (timeout_New one_second_cfg RecvErrc 0 canceled_early half_second_unit)
     = [IncTimeout]"
  by (simp add: timeout_New_def timeout_Run_unfold sint_one_second WithTimeout_def
      SanitizeRunner_def half_second_unit_def canceled_early_def Let_def)







text \<open>
  C7. \<open>timeout.New(cfg)\<close> is \<open>timeout.NewMiddleware(cfg)(nil)\<close>, and likewise for package
  chaos; an absent next Runner is replaced by the pass-through that calls the unit of
  work with the same context and returns what it returns, and a present one is kept;
  under \<open>timeout.New\<close> a unit that finishes in time, that is strictly before the derived
  context is done, has its error or nil returned unchanged.
\<close>

theorem timeout_New_pass_through:
  "timeout_New conf = timeout_NewMiddleware conf None
   \<and> chaos_New cc = chaos_NewMiddleware cc None
   \<and> runner (chaos_NewMiddleware cc None) start ctx f = f start ctx
   \<and> SanitizeRunner None start ctx f = f start ctx
   \<and> SanitizeRunner (Some r) = r
   \<and> (f now (WithTimeout now ctx (Timeout (defaults conf))) = Completes tc e
        \<and> doneAt (WithTimeout now ctx (Timeout (defaults conf))) = Some (td, ce)
        \<and> tc < td \<longrightarrow>
        outcome (timeout_New conf pick now ctx f) = Completes tc e)"
  by (simp add: timeout_New_def chaos_New_def chaos_NewMiddleware_def SanitizeRunner_def
      timeout_Run_unfold Let_def)

theorem timeout_New_pass_through_witness:
  "outcome (timeout_New one_second_cfg CtxDone 0 background failing_unit)
     = Completes 500000000 (Some (UnitErr ''boom''))
   \<and> timeout_New one_second_cfg = timeout_NewMiddleware one_second_cfg None"
proof -
  have d: "doneAt (WithTimeout 0 background (Timeout (defaults one_second_cfg)))
             = Some (1000000000, DeadlineExceeded)"
    by (simp add: WithTimeout_def background_def sint_one_second)
  have u: "failing_unit 0 (WithTimeout 0 background (Timeout (defaults one_second_cfg)))
             = Completes 500000000 (Some (UnitErr ''boom''))"
    by (simp add: failing_unit_def)
  show ?thesis
    using d u
      timeout_New_pass_through [where conf = one_second_cfg and f = failing_unit and now = 0
        and ctx = background and tc = 500000000 and e = "Some (UnitErr ''boom'')"
        and td = 1000000000 and ce = DeadlineExceeded and pick = CtxDone and start = 0
        and r = "SanitizeRunner None" and cc = "\<lparr>Injector = None\<rparr>"]
    by auto
qed

section \<open>Properties of package chaos\<close>

lemma bits_0 [simp]: "bits 0 = 0"
  by (subst bits.simps) simp

lemma bits_pos: "0 < n \<Longrightarrow> bits n = Suc (bits (n div 2))"
  by (subst bits.simps) simp

lemma bits_1 [simp]: "bits 1 = 1"
  by (simp add: bits_pos)

lemma bits_numeral [simp]: "bits (numeral k) = Suc (bits (numeral k div 2))"
  by (simp add: bits_pos)

lemma float64_of_int_0: "float64_of_int 0 = Finite 0"
  by (simp add: float64_of_int_def round64_def)

lemma float64_of_int_1: "float64_of_int 1 = Finite 1"
  by (simp add: float64_of_int_def round64_def Let_def pow2_def round_half_even_def exponent_def)

lemma round64_100: "round64 100 = Finite 100"
  by (simp add: round64_def Let_def pow2_def round_half_even_def exponent_def)

lemma bits_le: "n < 2 ^ k \<Longrightarrow> bits n \<le> k"
proof (induction k arbitrary: n)
  case 0
  then have "n \<le> 0" by simp
  then show ?case by (subst bits.simps) simp
next
  case (Suc k)
  show ?case
  proof (cases "n \<le> 0")
    case True
    then show ?thesis by (subst bits.simps) simp
  next
    case False
    have "n div 2 < 2 ^ k"
      using Suc.prems by simp
    then have "bits (n div 2) \<le> k"
      by (rule Suc.IH)
    then show ?thesis
      using False by (subst bits.simps) simp
  qed
qed

lemma bits_ge_1: "0 < n \<Longrightarrow> 1 \<le> bits n"
  by (subst bits.simps) simp

lemma pow2_pos: "0 < pow2 k"
  by (simp add: pow2_def)

lemma pow2_le_1: "k \<le> 0 \<Longrightarrow> pow2 k \<le> 1"
  by (simp add: pow2_def divide_le_eq_1)

lemma exponent_le:
  assumes "0 < a" "a < 2 ^ k"
  shows "exponent a \<le> int k"
proof (cases "1 \<le> a")
  case True
  have "\<lfloor>a\<rfloor> < 2 ^ k"
    using assms(2) by (simp add: floor_less_iff)
  then have "bits \<lfloor>a\<rfloor> \<le> k"
    by (rule bits_le)
  then show ?thesis
    using True by (simp add: exponent_def)
next
  case False
  then show ?thesis
    by (simp add: exponent_def)
qed

lemma round_half_even_bounds:
  assumes q: "0 \<le> q"
  shows "0 \<le> round_half_even q \<and> rat_of_int (round_half_even q) \<le> q + 1 / 2"
proof -
  define n where "n = \<lfloor>q\<rfloor>"
  have n0: "0 \<le> n"
    using q by (simp add: n_def)
  have lo: "rat_of_int n \<le> q"
    unfolding n_def by (rule of_int_floor_le)
  have eq: "round_half_even q =
      (if q - rat_of_int n < 1 / 2 then n
       else if 1 / 2 < q - rat_of_int n then n + 1
       else if even n then n else n + 1)"
    by (simp add: round_half_even_def n_def Let_def)
  show ?thesis
    unfolding eq using n0 lo by (auto simp: not_less)
qed

lemma round_half_even_of_int [simp]: "round_half_even (rat_of_int k) = k"
  by (simp add: round_half_even_def)

lemma round64_small:
  assumes "0 \<le> q" "q < 2 ^ 52"
  shows "\<exists>r. round64 q = Finite r \<and> 0 \<le> r \<and> r \<le> q + 1 / 2"
proof (cases "q = 0")
  case True
  then show ?thesis by (simp add: round64_def)
next
  case False
  then have pos: "0 < q"
    using assms(1) by simp
  define ulp where "ulp = pow2 (max (exponent q) (- 1022) - 52)"
  define m where "m = round_half_even (q / ulp)"
  have e: "exponent q \<le> 52"
    using exponent_le [OF pos assms(2)] by simp
  have ulp_pos: "0 < ulp"
    by (simp add: ulp_def pow2_pos)
  have ulp_le: "ulp \<le> 1"
    unfolding ulp_def using e by (intro pow2_le_1) simp
  have m: "0 \<le> m \<and> rat_of_int m \<le> q / ulp + 1 / 2"
    unfolding m_def using pos ulp_pos by (intro round_half_even_bounds) simp
  have r0: "0 \<le> rat_of_int m * ulp"
    using m ulp_pos by simp
  have "rat_of_int m * ulp \<le> (q / ulp + 1 / 2) * ulp"
    using m ulp_pos by (simp add: mult_right_mono)
  also have "\<dots> = q + ulp / 2"
    using ulp_pos by (simp add: field_simps)
  also have "\<dots> \<le> q + 1 / 2"
    using ulp_le by simp
  finally have r1: "rat_of_int m * ulp \<le> q + 1 / 2" .
  have "q + 1 / 2 < 2 ^ 53"
    using assms(2) by simp
  also have "(2::rat) ^ 53 \<le> 2 ^ 1024"
    by (rule power_increasing) simp_all
  finally have small: "\<not> pow2 1024 \<le> rat_of_int m * ulp"
    using r1 by (simp add: pow2_def)
  have "round64 q = Finite (rat_of_int m * ulp)"
    using pos small by (simp add: round64_def Let_def ulp_def [symmetric] m_def [symmetric])
  then show ?thesis
    using r0 r1 by simp
qed

text \<open>Integers below \<open>2 ^ 53\<close> are converted without rounding.\<close>

lemma float64_of_int_exact:
  assumes "0 \<le> n" "n < 2 ^ 53"
  shows "float64_of_int n = Finite (rat_of_int n)"
proof (cases "n = 0")
  case True
  then show ?thesis by (simp add: float64_of_int_def round64_def)
next
  case False
  then have pos: "0 < n"
    using assms(1) by simp
  define k where "k = 53 - bits n"
  have b1: "1 \<le> bits n"
    using pos by (rule bits_ge_1)
  have b2: "bits n \<le> 53"
    using assms(2) by (rule bits_le)
  have e: "exponent (rat_of_int n) = int (bits n) - 1"
    using pos by (simp add: exponent_def)
  have "max (int (bits n) - 1) (- 1022) - 52 = - int k"
    using b1 b2 by (simp add: k_def)
  then have ulp: "pow2 (max (exponent (rat_of_int n)) (- 1022) - 52) = 1 / 2 ^ k"
    by (simp add: e pow2_def)
  have m: "round_half_even (rat_of_int n * 2 ^ k) = n * 2 ^ k"
    using round_half_even_of_int [of "n * 2 ^ k"] by simp
  have "rat_of_int n < 2 ^ 53"
    using assms(2) by (metis of_int_less_iff of_int_numeral of_int_power)
  also have "(2::rat) ^ 53 \<le> 2 ^ 1024"
    by (rule power_increasing) simp_all
  finally have small: "\<not> pow2 1024 \<le> rat_of_int n"
    by (simp add: pow2_def)
  show ?thesis
    using pos small by (simp add: float64_of_int_def round64_def Let_def ulp m)
qed

text \<open>
  Once a request has been counted the observed percentage is a number from 0 to 150
  (100 but for the rounding), whatever the platform does with NaN.
\<close>

lemma currentErrPerc_counted:
  assumes "0 \<le> e" "e \<le> t" "0 < t" "t < 2 ^ 53"
  shows "0 \<le> int_of_float64 impl
           (fmul (fdiv (float64_of_int e) (float64_of_int t)) (Finite 100))"
proof -
  have fe: "float64_of_int e = Finite (rat_of_int e)"
    using assms by (intro float64_of_int_exact) simp_all
  have ft: "float64_of_int t = Finite (rat_of_int t)"
    using assms by (intro float64_of_int_exact) simp_all
  have q0: "0 \<le> rat_of_int e / rat_of_int t"
    using assms by simp
  have q1: "rat_of_int e / rat_of_int t \<le> 1"
    using assms by (simp add: divide_le_eq_1)
  obtain r where r: "round64 (rat_of_int e / rat_of_int t) = Finite r" "0 \<le> r" "r \<le> 3 / 2"
    using round64_small [OF q0] q1 by force
  have p0: "0 \<le> r * 100"
    using r by simp
  have p1: "r * 100 \<le> 150"
    using r by simp
  obtain p where p: "round64 (r * 100) = Finite p" "0 \<le> p" "p \<le> 151"
    using round64_small [OF p0] p1 by force
  have fl: "0 \<le> \<lfloor>p\<rfloor>" "\<lfloor>p\<rfloor> \<le> 151"
    using p by (simp_all add: floor_le_iff) 
  show ?thesis
    using assms fl p r by (simp add: fe ft int_of_float64_def Let_def)
qed

lemma floor_rat_numeral [simp]:
  "\<lfloor>numeral a / numeral b :: rat\<rfloor> = numeral a div numeral b"
  by (metis floor_divide_of_int_eq of_int_numeral)

lemma ceiling_rat_numeral [simp]:
  "\<lceil>numeral a / numeral b :: rat\<rceil> = - (- numeral a div numeral b)"
  by (metis ceiling_def divide_minus_left floor_divide_of_int_eq of_int_neg_numeral of_int_numeral)

text \<open>
  The model rounds as binary64 does: 29 errors in 100 requests are observed as 28
  percent, since \<open>0.29 * 100\<close> is \<open>28.999999999999996\<close> in \<^verbatim>\<open>float64\<close>.
\<close>

lemma exponent_29_100: "exponent (29 / 100) = - 2"
  by (simp add: exponent_def)

lemma round64_29_100: "round64 (29 / 100) = Finite (5224175567749775 / 18014398509481984)"
proof -
  have "round_half_even (130604389193744384 / 25) = 5224175567749775"
    by (simp add: round_half_even_def Let_def)
  then show ?thesis
    by (simp add: round64_def Let_def exponent_29_100 pow2_def)
qed

lemma round64_times_100:
  "round64 (130604389193744375 / 4503599627370496)
     = Finite (8162774324609023 / 281474976710656)"
proof -
  have e: "exponent (130604389193744375 / 4503599627370496) = 4"
    by (simp add: exponent_def)
  have "round_half_even (130604389193744375 / 16) = 8162774324609023"
    by (simp add: round_half_even_def Let_def)
  then show ?thesis
    by (simp add: round64_def Let_def e pow2_def)
qed

lemma currentErrPerc_29_of_100:
  "int_of_float64 impl (fmul (fdiv (float64_of_int 29) (float64_of_int 100)) (Finite 100)) = 28"
proof -
  have a: "float64_of_int 29 = Finite 29"
    using float64_of_int_exact [of 29] by simp
  have b: "float64_of_int 100 = Finite 100"
    using float64_of_int_exact [of 100] by simp
  show ?thesis
    by (simp add: a b round64_29_100 round64_times_100 int_of_float64_def)
qed

text \<open>The observed percentage before any request has been counted: NaN, converted.\<close>

lemma currentErrPerc_fresh:
  "int_of_float64 impl (fmul (fdiv (float64_of_int 0) (float64_of_int 0)) (Finite 100)) = impl NaN"
  by (simp add: float64_of_int_0 int_of_float64_def)

lemma currentErrPerc_one_of_one:
  "int_of_float64 impl (fmul (fdiv (float64_of_int 1) (float64_of_int 1)) (Finite 100)) = 100"
  by (simp add: float64_of_int_1 round64_100 int_of_float64_def)
    (simp add: round64_def Let_def pow2_def round_half_even_def exponent_def)

text \<open>
  C9. \<open>SetErrorPercent(percent)\<close> returns an error exactly when \<open>percent > 100\<close> or
  \<open>percent < 0\<close>, by the setter itself and not by a later \<open>Run\<close>, and then leaves the
  injector as it was; for every percent from 0 to 100 it stores the value and returns
  nil.
\<close>

theorem SetErrorPercent_range:
  "(fst (SetErrorPercent percent i) \<noteq> None \<longleftrightarrow> percent > 100 \<or> percent < 0)
   \<and> (percent > 100 \<or> percent < 0 \<longrightarrow>
        SetErrorPercent percent i = (Some (ErrInvalidPercent percent), i))
   \<and> (0 \<le> percent \<and> percent \<le> 100 \<longrightarrow>
        SetErrorPercent percent i = (None, i\<lparr>errorPercent := percent\<rparr>))"
  by (simp add: SetErrorPercent_def)

theorem SetErrorPercent_range_witness:
  "SetErrorPercent 101 \<lparr>latency = 0, errorPercent = 7\<rparr>
     = (Some (ErrInvalidPercent 101), \<lparr>latency = 0, errorPercent = 7\<rparr>)
   \<and> SetErrorPercent (- 1) \<lparr>latency = 0, errorPercent = 7\<rparr>
     = (Some (ErrInvalidPercent (- 1)), \<lparr>latency = 0, errorPercent = 7\<rparr>)
   \<and> SetErrorPercent 100 \<lparr>latency = 0, errorPercent = 7\<rparr>
     = (None, \<lparr>latency = 0, errorPercent = 100\<rparr>)"
  using SetErrorPercent_range [of 101 "\<lparr>latency = 0, errorPercent = 7\<rparr>"]
    SetErrorPercent_range [of "- 1" "\<lparr>latency = 0, errorPercent = 7\<rparr>"]
    SetErrorPercent_range [of 100 "\<lparr>latency = 0, errorPercent = 7\<rparr>"]
  by simp

text \<open>
  C10 says that with \<open>errorPercent = 0\<close> no call returns ErrFailureInjected, the first
  call included. The code at the first call of a runner built from the default
  configuration (latency 100ms, errorPercent 0) on amd64: the observed percentage is
  \<open>int(NaN)\<close>, the least \<^verbatim>\<open>int64\<close>, which is below 0, so the call sleeps, returns
  ErrFailureInjected without running the wrapped Runner, and is counted as an error.
\<close>

theorem chaos_Run_first_call_injects:
  "chaos_Run amd64 (chaos_New \<lparr>Injector = None\<rparr>) now ctx fn =
     Some (Completes (now + 100000000) (Some ErrFailureInjected),
           [IncChaosInjectedFailure kindLatency, IncChaosInjectedFailure kindError],
           \<lparr>total = 1, errs = 1,
            cfg = \<lparr>Injector = Some \<lparr>latency = 100000000, errorPercent = 0\<rparr>\<rparr>,
            runner = SanitizeRunner None\<rparr>)
   \<and> errorPercent \<lparr>latency = 100000000, errorPercent = 0\<rparr> = 0"
  by (simp add: chaos_Run_def chaos_New_def chaos_NewMiddleware_def chaos_defaults_def
      currentErrPerc_fresh amd64_def count_request_def wrap64_def word_sless_alt)

text \<open>The call after that one observes 100 percent and runs the wrapped Runner.\<close>

lemma chaos_Run_second_call_passes:
  "chaos_Run impl \<lparr>total = 1, errs = 1,
            cfg = \<lparr>Injector = Some \<lparr>latency = 0, errorPercent = 0\<rparr>\<rparr>,
            runner = SanitizeRunner None\<rparr> now ctx ok_unit =
     Some (Completes now None, [],
           \<lparr>total = 2, errs = 1,
            cfg = \<lparr>Injector = Some \<lparr>latency = 0, errorPercent = 0\<rparr>\<rparr>,
            runner = SanitizeRunner None\<rparr>)"
  by (simp add: chaos_Run_def currentErrPerc_one_of_one count_request_def wrap64_def
      word_sless_alt SanitizeRunner_def ok_unit_def)

text \<open>
  With \<open>errorPercent = 0\<close> the call that finds no request counted is the only one that
  can inject: once a request has been counted (and fewer than \<open>2 ^ 53\<close> have been) a call
  runs the wrapped Runner, on every platform, and the counters stay in that range.
\<close>

lemma chaos_Run_counted_passes:
  assumes "Injector (cfg f) = Some i" "errorPercent i = 0"
    and "0 \<le> errs f" "errs f \<le> total f" "0 < total f" "total f < 2 ^ 53"
  shows "chaos_Run impl f now ctx fn =
           (let ms = (if 0 <s latency i then [IncChaosInjectedFailure kindLatency] else []);
                t = (if 0 <s latency i then now + sint (latency i) else now)
            in case runner f t ctx fn of
                 Completes t' err \<Rightarrow> Some (Completes t' err, ms, count_request err f)
               | Never \<Rightarrow> Some (Never, ms, f))"
  using assms currentErrPerc_counted [of "errs f" "total f" impl]
  by (simp add: chaos_Run_def Let_def)

lemma wrap64_id: "- (2 ^ 63) \<le> x \<Longrightarrow> x < 2 ^ 63 \<Longrightarrow> wrap64 x = x"
  by (simp add: wrap64_def)

lemma count_request_counted:
  "0 \<le> errs f \<Longrightarrow> errs f \<le> total f \<Longrightarrow> total f < 2 ^ 53 \<Longrightarrow>
   0 \<le> errs (count_request err f) \<and> errs (count_request err f) \<le> total (count_request err f)
   \<and> 0 < total (count_request err f) \<and> total (count_request err f) = total f + 1
   \<and> cfg (count_request err f) = cfg f"
proof -
  assume a: "0 \<le> errs f" "errs f \<le> total f" "total f < 2 ^ 53"
  have t: "wrap64 (total f + 1) = total f + 1"
    using a by (intro wrap64_id) simp_all
  have e: "wrap64 (errs f + 1) = errs f + 1"
    using a by (intro wrap64_id) simp_all
  show ?thesis
    using a by (simp add: count_request_def t e)
qed

text \<open>At the greatest \<^verbatim>\<open>int64\<close> the counter wraps to the least.\<close>

lemma wrap64_MaxInt64: "wrap64 (9223372036854775807 + 1) = - 9223372036854775808"
  by (simp add: wrap64_def)

section \<open>Properties of the circuit breaker\<close>

lemma lazyCheck_Open_waiting:
  "state s = Open \<Longrightarrow> now - openedAt s < WaitDurationInOpenState conf \<Longrightarrow>
   lazyCheck conf now s = (s, [])"
  by (simp add: lazyCheck_def)

lemma lazyCheck_Open_elapsed:
  "state s = Open \<Longrightarrow> WaitDurationInOpenState conf \<le> now - openedAt s \<Longrightarrow>
   lazyCheck conf now s =
     (s\<lparr>state := HalfOpen, halfOpenSuccesses := 0\<rparr>, [IncCircuitBreakerState HalfOpen])"
  by (simp add: lazyCheck_def)


lemma circuitbreaker_Run_Open_waiting:
  "state s = Open \<Longrightarrow> now - openedAt s < WaitDurationInOpenState conf \<Longrightarrow>
   circuitbreaker_Run conf nxt s now ctx f =
     \<lparr>cbOutcome = Completes now (Some ErrCircuitOpen), cbRecorded = [],
      cbInvoked = False, cbAfter = s\<rparr>"
  by (simp add: circuitbreaker_Run_def lazyCheck_Open_waiting)

lemma circuitbreaker_Run_Open_elapsed:
  assumes "state s = Open" "WaitDurationInOpenState conf \<le> now - openedAt s"
  shows "cbInvoked (circuitbreaker_Run conf nxt s now ctx f)
       \<and> cbRecorded (circuitbreaker_Run conf nxt s now ctx f) ! 0 = IncCircuitBreakerState HalfOpen
       \<and> cbOutcome (circuitbreaker_Run conf nxt s now ctx f) = nxt now ctx f"
  using assms
  by (simp add: circuitbreaker_Run_def lazyCheck_Open_elapsed Let_def split: completion.splits)

text \<open>
  C3. A call that comes in while the circuit breaker is Open and before
  WaitDurationInOpenState has elapsed since it opened is rejected at once with
  ErrCircuitOpen: the wrapped Runner is not invoked, nothing is recorded and the state
  stays as it was. The transition from Open to HalfOpen is made by no timer but inside
  the first call that comes in once the wait has elapsed: that call's own check moves
  the state to HalfOpen, emits the state change, and the call runs the wrapped Runner
  as a probe.
\<close>

theorem circuitbreaker_Open_rejects:
  assumes "state s = Open"
  shows "(now - openedAt s < WaitDurationInOpenState conf \<longrightarrow>
            circuitbreaker_Run conf nxt s now ctx f =
              \<lparr>cbOutcome = Completes now (Some ErrCircuitOpen), cbRecorded = [],
               cbInvoked = False, cbAfter = s\<rparr>)
       \<and> (WaitDurationInOpenState conf \<le> now - openedAt s \<longrightarrow>
            state (fst (lazyCheck conf now s)) = HalfOpen
            \<and> snd (lazyCheck conf now s) = [IncCircuitBreakerState HalfOpen]
            \<and> cbInvoked (circuitbreaker_Run conf nxt s now ctx f)
            \<and> cbOutcome (circuitbreaker_Run conf nxt s now ctx f) = nxt now ctx f)"
  using assms circuitbreaker_Run_Open_waiting [of s now conf nxt ctx f] circuitbreaker_Run_Open_elapsed [of s conf now nxt ctx f]
  by (simp add: lazyCheck_Open_elapsed)

theorem circuitbreaker_Open_rejects_witness:
  "circuitbreaker_Run small_conf (SanitizeRunner None) tripped 2000000 background ok_unit =
     \<lparr>cbOutcome = Completes 2000000 (Some ErrCircuitOpen), cbRecorded = [],
      cbInvoked = False, cbAfter = tripped\<rparr>
   \<and> cbInvoked (circuitbreaker_Run small_conf (SanitizeRunner None) tripped 6000000000 background ok_unit)
   \<and> cbOutcome (circuitbreaker_Run small_conf (SanitizeRunner None) tripped 6000000000 background ok_unit)
       = Completes 6000000000 None"
proof -
  have o: "state tripped = Open"
    by (simp add: tripped_def)
  show ?thesis
    using circuitbreaker_Open_rejects [OF o, of 2000000 small_conf "SanitizeRunner None" background ok_unit]
      circuitbreaker_Open_rejects [OF o, of 6000000000 small_conf "SanitizeRunner None" background ok_unit]
    by (simp add: tripped_def small_conf_def SanitizeRunner_def ok_unit_def)
qed

lemma length_clearFrom [simp]: "length (clearFrom i k bs) = length bs"
  by (induction i k bs rule: clearFrom.induct) simp_all









lemma state_rotate [simp]: "state (rotate conf t s) = state s"
  by (simp add: rotate_def Let_def)

lemma state_countOutcome [simp]: "state (countOutcome conf t err s) = state s"
  by (simp add: countOutcome_def Let_def split: prod.splits)




















text \<open>
  A run of five calls: two failures open the circuit, the next call is rejected, the
  call after the wait is the probe, and its success closes the circuit again.
\<close>

lemma circuitbreaker_trace:
  "map (\<lambda>r. (cbOutcome r, cbInvoked r, state (cbAfter r)))
     (circuitbreaker_calls small_conf (SanitizeRunner None) (circuitbreaker_New small_conf 0)
        [(0, background, instant_failure), (1000000, background, instant_failure),
         (2000000, background, ok_unit), (6000000000, background, ok_unit),
         (6001000000, background, ok_unit)])
   = [(Completes 0 (Some (UnitErr ''odd minute'')), True, Closed),
      (Completes 1000000 (Some (UnitErr ''odd minute'')), True, Open),
      (Completes 2000000 (Some ErrCircuitOpen), False, Open),
      (Completes 6000000000 None, True, Closed),
      (Completes 6001000000 None, True, Closed)]"
  by code_simp

section \<open>Properties of the bulkhead\<close>


lemma earliest_less: "earliest a sls = Some (i, s) \<Longrightarrow> i < length sls"
proof (induction sls arbitrary: i s)
  case Nil
  then show ?case by simp
next
  case (Cons sl sls)
  then show ?case
    by (cases "freeAt a sl"; cases "earliest a sls") (auto split: if_splits)
qed

lemma waitLimit_Some: "0 < MaxWaitTime conf \<Longrightarrow> \<exists>l. waitLimit conf a ctx = Some l"
  by (simp add: waitLimit_def split: option.splits prod.splits)






lemma waitLimit_done: "doneAt ctx \<noteq> None \<Longrightarrow> \<exists>l. waitLimit conf a ctx = Some l"
  by (auto simp: waitLimit_def split: option.splits)














lemma length_timesToCall: "length (timesToCall k f) = k"
  by (simp add: timesToCall_def)



lemma calls_unbounded:
  "Workers conf = 0 \<Longrightarrow>
   bulkhead_calls conf nxt slots cs = map (\<lambda>(a, ctx, f). admit nxt a ctx f) cs"
  by (induction cs arbitrary: slots) (auto simp: bulkhead_Run_def)

lemma filter_admit:
  "filter isAdmitted (map (\<lambda>(a, ctx, f). admit nxt a ctx f) cs)
     = map (\<lambda>(a, ctx, f). admit nxt a ctx f) cs
   \<and> filter isRejected (map (\<lambda>(a, ctx, f). admit nxt a ctx f) cs) = []"
  by (induction cs) (auto simp: admit_def)

text \<open>
  C6. With Workers = 0, for every list of calls, whatever its length: every call is
  admitted at its arrival, its result is what the wrapped Runner returns for it, and no
  call is rejected.
\<close>

theorem bulkhead_unbounded:
  assumes "Workers conf = 0"
  shows "bulkhead_calls conf nxt slots cs =
           map (\<lambda>(a, ctx, f).
                  \<lparr>admission = Admitted a, bkOutcome = nxt a ctx f, bkRecorded = [],
                   bkInvoked = True\<rparr>) cs
       \<and> length (filter isAdmitted (bulkhead_calls conf nxt slots cs)) = length cs
       \<and> filter isRejected (bulkhead_calls conf nxt slots cs) = []"
  using calls_unbounded [OF assms, of nxt slots cs] filter_admit [of nxt cs]
  by (simp add: admit_def)

theorem bulkhead_unbounded_witness:
  "length (filter isAdmitted
       (bulkhead_calls test_unbounded (SanitizeRunner None) (bulkhead_New test_unbounded)
          (timesToCall 100 sleep_2ms))) = 100
   \<and> filter isRejected
       (bulkhead_calls test_unbounded (SanitizeRunner None) (bulkhead_New test_unbounded)
          (timesToCall 100 sleep_2ms)) = []"
proof -
  have w: "Workers test_unbounded = 0"
    by (simp add: test_unbounded_def)
  show ?thesis
    using conjunct2 [OF bulkhead_unbounded [OF w, of "SanitizeRunner None"
          "bulkhead_New test_unbounded" "timesToCall 100 sleep_2ms"]]
    by (simp add: length_timesToCall)
qed

text \<open>
  The second case of \<^verbatim>\<open>TestBulkheadTimeout\<close>: 100 calls of 20ms at once on 10 workers with
  5ms of wait; the test expects 10 calls to run.
\<close>

lemma TestBulkheadTimeout_bounded:
  "length (filter isAdmitted
       (bulkhead_calls test_bounded (SanitizeRunner None) (bulkhead_New test_bounded)
          (timesToCall 100 sleep_20ms))) = 10"
  by code_simp

end
